theory Spec2Isabelle
  imports Complex_Main
begin

section \<open>Python values and strings\<close>

text \<open>
  Strings are lists of characters; a character stands for a code point below 256
  (the Latin-1 range of Python's \<open>str\<close>).  \<open>py_isspace\<close> is \<open>str.isspace\<close> on one
  character of that range: TAB, LF, VT, FF, CR, the separators 0x1C..0x1F, SPACE,
  NEL (0x85) and NBSP (0xA0).
\<close>

definition py_isspace :: "char \<Rightarrow> bool" where
  "py_isspace c =
     (of_char c \<in> {9, 10, 11, 12, 13, 28, 29, 30, 31, 32, 133, 160 :: nat})"

text \<open>\<open>s.lstrip()\<close>, \<open>s.rstrip()\<close> and \<open>s.strip()\<close> without argument.\<close>

definition py_lstrip :: "string \<Rightarrow> string" where
  "py_lstrip s = dropWhile py_isspace s"

definition py_rstrip :: "string \<Rightarrow> string" where
  "py_rstrip s = rev (dropWhile py_isspace (rev s))"

definition py_strip :: "string \<Rightarrow> string" where
  "py_strip s = py_rstrip (py_lstrip s)"

text \<open>\<open>s.lstrip("/")\<close> and \<open>s.rstrip("/")\<close>: strip one given character.\<close>

definition lstrip_char :: "char \<Rightarrow> string \<Rightarrow> string" where
  "lstrip_char c s = dropWhile (\<lambda>x. x = c) s"

definition rstrip_char :: "char \<Rightarrow> string \<Rightarrow> string" where
  "rstrip_char c s = rev (dropWhile (\<lambda>x. x = c) (rev s))"

text \<open>
  A Python float as \<open>json.load\<close> can produce it: a finite value (idealised as a real
  number), an infinity (the literals \<open>Infinity\<close>, \<open>-Infinity\<close> or an overflowing
  literal such as \<open>1e999\<close>) or \<open>NaN\<close>.
\<close>

datatype pyfloat = Finite real | PosInf | NegInf | NaN

text \<open>The values \<open>json.load\<close> returns; an object is a dict, kept as an association list.\<close>

datatype json =
    JNull
  | JBool bool
  | JInt int
  | JFloat pyfloat
  | JStr string
  | JList "json list"
  | JObj "(string \<times> json) list"

type_synonym dict = "(string \<times> json) list"

text \<open>\<open>d.get(k)\<close>: \<open>None\<close> of the model is Python's missing key.\<close>

definition dict_get :: "dict \<Rightarrow> string \<Rightarrow> json option" where
  "dict_get d k = map_of d k"

text \<open>Python truthiness (\<open>bool(v)\<close>) of a JSON value.\<close>

fun truthy :: "json \<Rightarrow> bool" where
  "truthy JNull = False"
| "truthy (JBool b) = b"
| "truthy (JInt i) = (i \<noteq> 0)"
| "truthy (JFloat f) = (f \<noteq> Finite 0)"
| "truthy (JStr s) = (s \<noteq> [])"
| "truthy (JList xs) = (xs \<noteq> [])"
| "truthy (JObj kvs) = (kvs \<noteq> [])"

text \<open>The exceptions of the model.\<close>

datatype request_exception = TransportError string | HTTPError int

datatype error =
    ValueError string
  | TypeError
  | OverflowError
  | AttributeError
  | AssertionError
  | RequestException request_exception

subsection \<open>The builtin \<open>int()\<close>\<close>

definition is_digit :: "char \<Rightarrow> bool" where
  "is_digit c = (48 \<le> (of_char c :: nat) \<and> (of_char c :: nat) \<le> 57)"

definition digit_val :: "char \<Rightarrow> nat" where
  "digit_val c = of_char c - 48"

text \<open>
  Decimal digits with single underscores allowed between digits (\<open>"1_000"\<close>); the
  accumulator holds the digits read so far.
\<close>

fun digits_val :: "string \<Rightarrow> nat \<Rightarrow> nat option" where
  "digits_val [] acc = None"
| "digits_val [c] acc = (if is_digit c then Some (10 * acc + digit_val c) else None)"
| "digits_val (c # d # ds) acc =
     (if \<not> is_digit c then None
      else if d = CHR ''_'' then digits_val ds (10 * acc + digit_val c)
      else digits_val (d # ds) (10 * acc + digit_val c))"

text \<open>
  The whitespace \<open>int()\<close> skips around a literal: TAB, LF, VT, FF, CR and SPACE, and
  NEL (0x85) and NBSP (0xA0), which it first turns into spaces.  The separators
  0x1C..0x1F, which \<open>str.strip\<close> removes, are not among them.
\<close>

definition int_isspace :: "char \<Rightarrow> bool" where
  "int_isspace c = (of_char c \<in> {9, 10, 11, 12, 13, 32, 133, 160 :: nat})"

definition int_strip :: "string \<Rightarrow> string" where
  "int_strip s = rev (dropWhile int_isspace (rev (dropWhile int_isspace s)))"

text \<open>
  The default of \<open>sys.get_int_max_str_digits()\<close>: a literal with more digits
  (underscores not counted, leading zeros counted) is refused with \<open>ValueError\<close>.
\<close>

definition int_max_str_digits :: nat where
  "int_max_str_digits = 4300"

text \<open>
  \<open>int(s)\<close> for a string: the whitespace around the literal is skipped, one sign is
  allowed, the digits follow.  \<open>None\<close> is the \<open>ValueError\<close> of an invalid or too long
  literal.
\<close>

definition int_of_str :: "string \<Rightarrow> int option" where
  "int_of_str s =
     (case int_strip s of
        [] \<Rightarrow> None
      | c # cs \<Rightarrow>
          (let literal = (if c = CHR ''-'' \<or> c = CHR ''+'' then cs else c # cs) in
           if int_max_str_digits < length (filter is_digit literal) then None
           else if c = CHR ''-'' then map_option (\<lambda>n. - int n) (digits_val literal 0)
           else map_option int (digits_val literal 0)))"

text \<open>\<open>int(x)\<close> for a float truncates towards zero.\<close>

definition trunc :: "real \<Rightarrow> int" where
  "trunc x = (if 0 \<le> x then \<lfloor>x\<rfloor> else \<lceil>x\<rceil>)"

fun py_int :: "json \<Rightarrow> error + int" where
  "py_int JNull = Inl TypeError"
| "py_int (JBool b) = Inr (if b then 1 else 0)"
| "py_int (JInt i) = Inr i"
| "py_int (JFloat (Finite x)) = Inr (trunc x)"
| "py_int (JFloat PosInf) = Inl OverflowError"
| "py_int (JFloat NegInf) = Inl OverflowError"
| "py_int (JFloat NaN) = Inl (ValueError ''cannot convert float NaN to integer'')"
| "py_int (JStr s) =
     (case int_of_str s of
        None \<Rightarrow> Inl (ValueError ''invalid literal for int() with base 10'')
      | Some i \<Rightarrow> Inr i)"
| "py_int (JList xs) = Inl TypeError"
| "py_int (JObj kvs) = Inl TypeError"

section \<open>main.py: the input configuration\<close>

text \<open>
  The dict the normaliser returns has exactly the keys \<open>profiles\<close>, \<open>keywords\<close> and
  \<open>maxItemsPerKeyword\<close>; the fields carry the prefix \<open>cfg_\<close>.
\<close>

record input_config =
  cfg_profiles :: "string list"
  cfg_keywords :: "string list"
  cfg_maxItemsPerKeyword :: int

text \<open>
  \<open>[p for p in xs if isinstance(p, str) and p.strip()]\<close>: the strings of the list
  that are not empty after stripping.
\<close>

definition str_entries :: "json list \<Rightarrow> string list" where
  "str_entries xs =
     List.map_filter
       (\<lambda>p. case p of JStr s \<Rightarrow> if py_strip s \<noteq> [] then Some s else None | _ \<Rightarrow> None) xs"

text \<open>\<open>raw.get(k) or []\<close>\<close>

definition get_or_empty :: "dict \<Rightarrow> string \<Rightarrow> json" where
  "get_or_empty raw k =
     (case dict_get raw k of
        None \<Rightarrow> JList []
      | Some v \<Rightarrow> if truthy v then v else JList [])"

definition normalize_max_items :: "dict \<Rightarrow> error + int" where
  "normalize_max_items raw =
     (let max_items_per_keyword =
            (case dict_get raw ''maxItemsPerKeyword'' of None \<Rightarrow> JInt 20 | Some v \<Rightarrow> v)
      in case py_int max_items_per_keyword of
           Inl TypeError \<Rightarrow> Inl (ValueError ''`maxItemsPerKeyword` must be an integer.'')
         | Inl (ValueError m) \<Rightarrow> Inl (ValueError ''`maxItemsPerKeyword` must be an integer.'')
         | Inl e \<Rightarrow> Inl e
         | Inr n \<Rightarrow>
             if n \<le> 0 then Inl (ValueError ''`maxItemsPerKeyword` must be > 0.'')
             else Inr n)"

definition normalize_input_config :: "dict \<Rightarrow> error + input_config" where
  "normalize_input_config raw =
     (case get_or_empty raw ''profiles'' of
        JList ps \<Rightarrow>
          (case get_or_empty raw ''keywords'' of
             JList ks \<Rightarrow>
               (case normalize_max_items raw of
                  Inl e \<Rightarrow> Inl e
                | Inr n \<Rightarrow>
                    Inr \<lparr>cfg_profiles = str_entries ps, cfg_keywords = str_entries ks,
                         cfg_maxItemsPerKeyword = n\<rparr>)
           | _ \<Rightarrow> Inl (ValueError ''`keywords` must be a list of search keywords.''))
      | _ \<Rightarrow> Inl (ValueError ''`profiles` must be a list of SoundCloud profile URLs.''))"

section \<open>main.py: deduplication\<close>

text \<open>
  Modelled from the spec: the shape of an artist record, which the source builds in
  \<open>_normalize_artist\<close> (not part of the available source).  The data model gives
  \<open>id\<close> as an integer or a string and \<open>permalink_url\<close> and \<open>username\<close> as strings,
  each optional (\<open>None\<close> is Python's \<open>None\<close> or a missing key).  The field list is a
  minimum: the record is extensible, and every function below works on any extension.
  The field \<open>id\<close> is named \<open>artist_id\<close>.
\<close>

datatype ident = IntId int | StrId string

record artist =
  artist_id :: "ident option"
  permalink_url :: "string option"
  username :: "string option"

text \<open>The tuples \<open>("id", artist_id)\<close> and \<open>("url", permalink_url)\<close>.\<close>

datatype key = IdKey ident | UrlKey string

text \<open>
  The key the loop body computes: \<open>("id", artist_id)\<close> when \<open>artist_id is not None\<close>,
  else \<open>("url", permalink_url)\<close> when \<open>permalink_url\<close> is truthy (a non-empty string),
  else \<open>None\<close>.
\<close>

definition artist_key :: "'a artist_scheme \<Rightarrow> key option" where
  "artist_key a =
     (case artist_id a of
        Some i \<Rightarrow> Some (IdKey i)
      | None \<Rightarrow>
          (case permalink_url a of
             Some u \<Rightarrow> if u \<noteq> [] then Some (UrlKey u) else None
           | None \<Rightarrow> None))"

text \<open>The \<open>for\<close> loop of \<open>_deduplicate_artists\<close>, with its three variables.\<close>

fun dedupe_loop ::
  "key set \<Rightarrow> key set \<Rightarrow> 'a artist_scheme list \<Rightarrow> 'a artist_scheme list
     \<Rightarrow> 'a artist_scheme list" where
  "dedupe_loop seen_ids seen_urls result [] = result"
| "dedupe_loop seen_ids seen_urls result (a # rest) =
     (case artist_key a of
        None \<Rightarrow> dedupe_loop seen_ids seen_urls (result @ [a]) rest
      | Some k \<Rightarrow>
          if k \<in> seen_ids \<or> k \<in> seen_urls then dedupe_loop seen_ids seen_urls result rest
          else
            (case k of
               IdKey i \<Rightarrow> dedupe_loop (insert k seen_ids) seen_urls (result @ [a]) rest
             | UrlKey u \<Rightarrow> dedupe_loop seen_ids (insert k seen_urls) (result @ [a]) rest))"

definition deduplicate_artists :: "'a artist_scheme list \<Rightarrow> 'a artist_scheme list" where
  "deduplicate_artists artists = dedupe_loop {} {} [] artists"

text \<open>
  The same loop with one set of seen keys and the result built front to back; the
  keys of the two sets never meet, since each carries its tag.
\<close>

fun dedupe_from :: "key set \<Rightarrow> 'a artist_scheme list \<Rightarrow> 'a artist_scheme list" where
  "dedupe_from seen [] = []"
| "dedupe_from seen (a # rest) =
     (case artist_key a of
        None \<Rightarrow> a # dedupe_from seen rest
      | Some k \<Rightarrow>
          if k \<in> seen then dedupe_from seen rest else a # dedupe_from (insert k seen) rest)"

text \<open>
  The specification of deduplication, in the spec's words: the record at position \<open>i\<close>
  is retained when it has no identity key, or when no earlier record has its key (it is
  the first occurrence); the result is the retained records in the order of the input.
\<close>

definition retained :: "'a artist_scheme list \<Rightarrow> nat \<Rightarrow> bool" where
  "retained xs i =
     (artist_key (xs ! i) = None \<or> artist_key (xs ! i) \<notin> set (map artist_key (take i xs)))"

definition dedupe_spec :: "'a artist_scheme list \<Rightarrow> 'a artist_scheme list" where
  "dedupe_spec xs = map (\<lambda>i. xs ! i) (filter (retained xs) [0..<length xs])"

text \<open>The same with a set of keys seen before the list starts.\<close>

definition retained_from :: "key set \<Rightarrow> 'a artist_scheme list \<Rightarrow> nat \<Rightarrow> bool" where
  "retained_from seen xs i =
     (artist_key (xs ! i) = None \<or>
      (artist_key (xs ! i) \<notin> Some ` seen \<and>
       artist_key (xs ! i) \<notin> set (map artist_key (take i xs))))"

section \<open>extractors/utils.py: the HTTP client\<close>

text \<open>A response, with the two attributes the code reads (\<open>text\<close> is \<open>resp_text\<close>).\<close>

record response =
  status_code :: int
  resp_text :: string

text \<open>
  One call of \<open>requests.get\<close> either returns a response or raises a
  \<open>RequestException\<close>.  The network is an oracle: the outcome of the \<open>k\<close>-th request
  of a run (counted from 0), for the URL it asks.  What the program does to the world is
  a trace of events: the requests it issued and the sleeps it took.  A finite float is a
  real number, and durations are kept as such.
\<close>

datatype outcome = Returns response | Raises request_exception

datatype event = Request string | Sleep real

type_synonym network = "nat \<Rightarrow> string \<Rightarrow> outcome"

fun is_request :: "event \<Rightarrow> bool" where
  "is_request (Request u) = True"
| "is_request (Sleep d) = False"

definition count_requests :: "event list \<Rightarrow> nat" where
  "count_requests tr = length (filter is_request tr)"

definition requests_get :: "network \<Rightarrow> string \<Rightarrow> event list \<Rightarrow> outcome \<times> event list" where
  "requests_get net url tr = (net (count_requests tr) url, tr @ [Request url])"

text \<open>\<open>Response.raise_for_status\<close> raises \<open>HTTPError\<close> for a status from 400 to 599.\<close>

definition raise_for_status :: "response \<Rightarrow> request_exception option" where
  "raise_for_status resp =
     (if 400 \<le> status_code resp \<and> status_code resp < 600
      then Some (HTTPError (status_code resp)) else None)"

text \<open>
  The \<open>try\<close> block of one attempt: \<open>Inl\<close> is the \<open>RequestException\<close> the handler
  catches, \<open>Inr\<close> the response returned.
\<close>

definition try_request ::
  "network \<Rightarrow> string \<Rightarrow> event list \<Rightarrow> (request_exception + response) \<times> event list" where
  "try_request net url tr =
     (case requests_get net url tr of
        (Raises exc, tr') \<Rightarrow> (Inl exc, tr')
      | (Returns resp, tr') \<Rightarrow>
          (case raise_for_status resp of
             Some exc \<Rightarrow> (Inl exc, tr')
           | None \<Rightarrow> (Inr resp, tr')))"

text \<open>The two statements after the loop: \<open>assert last_exc is not None; raise last_exc\<close>.\<close>

definition after_loop :: "request_exception option \<Rightarrow> error" where
  "after_loop last_exc =
     (case last_exc of None \<Rightarrow> AssertionError | Some exc \<Rightarrow> RequestException exc)"

text \<open>
  \<open>backoff_factor * (2 ** (attempt - 1))\<close>, with \<open>backoff_factor\<close> a float as
  annotated: the integer power is converted to a float, which raises \<open>OverflowError\<close>
  from \<open>2 ** 1024\<close> on.  Below that the product with a power of two is exact in
  floating point, so the delay is the real product (a product beyond the largest float
  is infinite there and far beyond what \<open>time.sleep\<close> accepts here).  An infinite or
  NaN \<open>backoff_factor\<close> is outside the model.
\<close>

definition backoff_delay :: "real \<Rightarrow> nat \<Rightarrow> error + real" where
  "backoff_delay backoff_factor attempt =
     (if 1024 \<le> attempt - 1 then Inl OverflowError
      else Inr (backoff_factor * 2 ^ (attempt - 1)))"

text \<open>
  \<open>time.sleep\<close> keeps the delay as a 64-bit count of nanoseconds: it raises
  \<open>ValueError\<close> for a negative delay and \<open>OverflowError\<close> for one beyond
  \<open>2 ^ 63\<close> nanoseconds (about 9.22e9 seconds; at that limit itself the outcome
  depends on floating-point rounding).  \<open>None\<close> is a sleep that took place.
\<close>

definition max_sleep :: real where
  "max_sleep = 2 ^ 63 / 10 ^ 9"

definition time_sleep :: "real \<Rightarrow> error option" where
  "time_sleep secs =
     (if secs < 0 then Some (ValueError ''sleep length must be non-negative'')
      else if max_sleep < secs then Some OverflowError
      else None)"

text \<open>
  The \<open>while\<close> loop.  \<open>attempt\<close> is the counter before its increment.  An exception
  of the delay computation or of \<open>time.sleep\<close> is raised inside the handler and
  leaves the function.
\<close>

function http_get_loop ::
  "network \<Rightarrow> string \<Rightarrow> int \<Rightarrow> real \<Rightarrow> nat \<Rightarrow> request_exception option \<Rightarrow> event list
     \<Rightarrow> (error + response) \<times> event list" where
  "http_get_loop net url max_retries backoff_factor attempt last_exc tr =
     (if int attempt < max_retries then
        (let attempt' = attempt + 1 in
         case try_request net url tr of
           (Inr resp, tr') \<Rightarrow> (Inr resp, tr')
         | (Inl exc, tr') \<Rightarrow>
             if int attempt' \<ge> max_retries then (Inl (after_loop (Some exc)), tr')
             else
               (case backoff_delay backoff_factor attempt' of
                  Inl e \<Rightarrow> (Inl e, tr')
                | Inr sleep_for \<Rightarrow>
                    (case time_sleep sleep_for of
                       Some e \<Rightarrow> (Inl e, tr')
                     | None \<Rightarrow>
                         http_get_loop net url max_retries backoff_factor attempt' (Some exc)
                           (tr' @ [Sleep sleep_for]))))
      else (Inl (after_loop last_exc), tr))"
  by pat_completeness auto
termination
  by (relation "measure (\<lambda>(net, url, max_retries, backoff_factor, attempt, last_exc, tr).
        nat (max_retries - int attempt))") auto

declare http_get_loop.simps [simp del]

text \<open>
  \<open>http_get\<close>; \<open>timeout\<close>, \<open>user_agent\<close> and \<open>proxy\<close> only shape the request, whose
  outcome the oracle gives.
\<close>

definition http_get ::
  "network \<Rightarrow> string \<Rightarrow> int \<Rightarrow> real \<Rightarrow> event list \<Rightarrow> (error + response) \<times> event list" where
  "http_get net url max_retries backoff_factor tr =
     http_get_loop net url max_retries backoff_factor 0 None tr"

section \<open>extractors/soundcloud\_parser.py: the scraper\<close>

record scraper_config =
  base_url :: string
  timeout :: int
  max_retries :: int
  backoff_factor :: real
  user_agent :: "string option"
  proxy :: "string option"

text \<open>
  What the scraper calls and the available source does not hold: the library functions
  \<open>urllib.parse.quote\<close>, \<open>urllib.parse.urljoin\<close>, \<open>json.loads\<close> and the two regular
  expression searches of \<open>_extract_hydration_blocks\<close> (each gives the text of group 1
  of the first match), and the methods \<open>_find_user_block\<close>, \<open>_find_user_list\<close>,
  \<open>_normalize_artist\<close>, \<open>_parse_from_meta_tags\<close> and
  \<open>_extract_profile_links_from_search_page\<close> (the last two take the page text that
  the source first hands to the HTML parser).  They are parameters; a result
  \<open>None\<close> of an artist-valued one is a falsy value (\<open>None\<close> or an empty dict).
\<close>

record helpers =
  quote :: "string \<Rightarrow> string"
  urljoin :: "string \<Rightarrow> string \<Rightarrow> string"
  json_loads :: "string \<Rightarrow> error + json"
  search_primary :: "string \<Rightarrow> string option"
  search_loose :: "string \<Rightarrow> string option"
  find_user_block :: "json list \<Rightarrow> json option"
  find_user_list :: "json list \<Rightarrow> json list"
  normalize_artist :: "json \<Rightarrow> string option \<Rightarrow> artist option"
  parse_from_meta_tags :: "string \<Rightarrow> string \<Rightarrow> artist option"
  extract_profile_links_from_search_page :: "string \<Rightarrow> string list"

text \<open>\<open>SoundCloudArtistScraper.__init__\<close>\<close>

definition SoundCloudArtistScraper ::
  "string \<Rightarrow> int \<Rightarrow> int \<Rightarrow> real \<Rightarrow> string option \<Rightarrow> string option \<Rightarrow> scraper_config" where
  "SoundCloudArtistScraper b t m f ua p =
     \<lparr>base_url = rstrip_char CHR ''/'' b, timeout = t, max_retries = m,
      backoff_factor = f, user_agent = ua, proxy = p\<rparr>"

definition normalize_profile_url :: "helpers \<Rightarrow> scraper_config \<Rightarrow> string \<Rightarrow> string" where
  "normalize_profile_url h cfg url0 =
     (let url = py_strip url0 in
      if take 4 url \<noteq> ''http''
      then urljoin h (base_url cfg @ ''/'') (lstrip_char CHR ''/'' url)
      else url)"

text \<open>
  Modelled from the spec: \<open>_extract_hydration_blocks\<close>, whose source breaks off after
  the primary search and the start of the fallback.  The spec: the primary pattern is
  searched, then the looser one; with no match by either the result is the empty
  sequence; the matched text is parsed as JSON, and malformed JSON is treated like no
  match (an empty result), not propagated.  \<open>Inl\<close> would be an exception leaving the
  method.
\<close>

definition extract_hydration_blocks :: "helpers \<Rightarrow> string \<Rightarrow> error + json list" where
  "extract_hydration_blocks h html =
     (let found = (case search_primary h html of
                     Some m \<Rightarrow> Some m
                   | None \<Rightarrow> search_loose h html)
      in case found of
           None \<Rightarrow> Inr []
         | Some m \<Rightarrow>
             (case json_loads h m of
                Inl e \<Rightarrow> Inr []
              | Inr (JList blocks) \<Rightarrow> Inr blocks
              | Inr v \<Rightarrow> Inr []))"

definition fetch_artist_profile ::
  "helpers \<Rightarrow> scraper_config \<Rightarrow> network \<Rightarrow> string \<Rightarrow> event list
     \<Rightarrow> (error + artist option) \<times> event list" where
  "fetch_artist_profile h cfg net profile_url tr =
     (let normalized_url = normalize_profile_url h cfg profile_url in
      case http_get net normalized_url (max_retries cfg) (backoff_factor cfg) tr of
        (Inl e, tr') \<Rightarrow> (Inl e, tr')
      | (Inr resp, tr') \<Rightarrow>
          (let html = resp_text resp in
           case extract_hydration_blocks h html of
             Inl e \<Rightarrow> (Inl e, tr')
           | Inr hydration \<Rightarrow>
               (case find_user_block h hydration of
                  Some user_block \<Rightarrow>
                    (Inr (normalize_artist h user_block (Some normalized_url)), tr')
                | None \<Rightarrow> (Inr (parse_from_meta_tags h html normalized_url), tr'))))"

text \<open>\<open>xs[:m]\<close>: a negative \<open>m\<close> counts from the end.\<close>

definition py_slice_to :: "'a list \<Rightarrow> int \<Rightarrow> 'a list" where
  "py_slice_to xs m =
     (if 0 \<le> m then take (nat m) xs else take (nat (int (length xs) + m)) xs)"

text \<open>The first loop of \<open>search_artists\<close>, over the users of the hydration data.\<close>

fun collect_users :: "helpers \<Rightarrow> int \<Rightarrow> json list \<Rightarrow> artist list \<Rightarrow> artist list" where
  "collect_users h max_items [] artists = artists"
| "collect_users h max_items (user_data # rest) artists =
     (if int (length artists) \<ge> max_items then artists
      else
        (case normalize_artist h user_data None of
           Some a \<Rightarrow> collect_users h max_items rest (artists @ [a])
         | None \<Rightarrow> collect_users h max_items rest artists))"

text \<open>
  The second loop, over the profile links; \<open>except Exception\<close> skips a link whose fetch
  raised.
\<close>

fun collect_profiles ::
  "helpers \<Rightarrow> scraper_config \<Rightarrow> network \<Rightarrow> int \<Rightarrow> string list \<Rightarrow> artist list \<Rightarrow> event list
     \<Rightarrow> artist list \<times> event list" where
  "collect_profiles h cfg net max_items [] artists tr = (artists, tr)"
| "collect_profiles h cfg net max_items (url # rest) artists tr =
     (if int (length artists) \<ge> max_items then (artists, tr)
      else
        (case fetch_artist_profile h cfg net url tr of
           (Inl exc, tr') \<Rightarrow> collect_profiles h cfg net max_items rest artists tr'
         | (Inr (Some a), tr') \<Rightarrow> collect_profiles h cfg net max_items rest (artists @ [a]) tr'
         | (Inr None, tr') \<Rightarrow> collect_profiles h cfg net max_items rest artists tr'))"

definition search_artists ::
  "helpers \<Rightarrow> scraper_config \<Rightarrow> network \<Rightarrow> string \<Rightarrow> int \<Rightarrow> event list
     \<Rightarrow> (error + artist list) \<times> event list" where
  "search_artists h cfg net keyword max_items tr =
     (let q = py_strip keyword in
      if q = [] then (Inl (ValueError ''Keyword cannot be empty.''), tr)
      else
        (let search_url = base_url cfg @ ''/search/people?q='' @ quote h q in
         case http_get net search_url (max_retries cfg) (backoff_factor cfg) tr of
           (Inl e, tr1) \<Rightarrow> (Inl e, tr1)
         | (Inr resp, tr1) \<Rightarrow>
             (let html = resp_text resp in
              case extract_hydration_blocks h html of
                Inl e \<Rightarrow> (Inl e, tr1)
              | Inr hydration \<Rightarrow>
                  (let user_entries = find_user_list h hydration;
                       artists = collect_users h max_items user_entries []
                   in if int (length artists) \<ge> max_items
                      then (Inr (py_slice_to artists max_items), tr1)
                      else
                        (let profile_links = extract_profile_links_from_search_page h html in
                         case collect_profiles h cfg net max_items profile_links artists tr1 of
                           (artists', tr2) \<Rightarrow> (Inr (py_slice_to artists' max_items), tr2))))))"

section \<open>main.py: the run\<close>

text \<open>
  The result of \<open>load_runtime_settings\<close>: the overrides a settings file gives
  (\<open>None\<close> for a key it does not give); reading it is file I/O, not a request.
\<close>

record runtime_settings =
  s_base_url :: "string option"
  s_timeout :: "int option"
  s_max_retries :: "int option"
  s_backoff_factor :: "real option"
  s_user_agent :: "string option"
  s_proxy :: "string option"

definition default_user_agent :: string where
  "default_user_agent =
     ''Mozilla/5.0 (Windows NT 10.0; Win64; x64) AppleWebKit/537.36 (KHTML, like Gecko) Chrome/124.0 Safari/537.36''"

definition scraper_of_settings :: "runtime_settings \<Rightarrow> scraper_config" where
  "scraper_of_settings st =
     SoundCloudArtistScraper
       (case s_base_url st of Some b \<Rightarrow> b | None \<Rightarrow> ''https://soundcloud.com'')
       (case s_timeout st of Some t \<Rightarrow> t | None \<Rightarrow> 15)
       (case s_max_retries st of Some m \<Rightarrow> m | None \<Rightarrow> 3)
       (case s_backoff_factor st of Some f \<Rightarrow> f | None \<Rightarrow> 0.5)
       (case s_user_agent st of Some ua \<Rightarrow> Some ua | None \<Rightarrow> Some default_user_agent)
       (s_proxy st)"

text \<open>
  The input file as \<open>main\<close> meets it: not there, there but \<open>load_json_file\<close> raises,
  or loaded as a JSON value.
\<close>

datatype input_file = Missing | Unreadable | Loaded json

text \<open>
  How the process ends: normally, by \<open>SystemExit\<close> with the message of a missing
  input file, by \<open>SystemExit(1)\<close>, or by an exception nothing catches.
\<close>

datatype exit_status = ExitNormally | SystemExit_not_found | SystemExit_1 | Uncaught error

text \<open>
  A run: how it ended, the requests and sleeps it made, and the list handed to
  \<open>export_to_json\<close> (\<open>None\<close> when nothing was exported).
\<close>

record run =
  exit :: exit_status
  events :: "event list"
  exported :: "artist list option"

text \<open>
  The loop over the profiles; \<open>Inl\<close> is an exception of \<open>fetch_artist_profile\<close>, which
  this loop does not catch.
\<close>

fun fetch_profiles ::
  "helpers \<Rightarrow> scraper_config \<Rightarrow> network \<Rightarrow> string list \<Rightarrow> artist list \<Rightarrow> event list
     \<Rightarrow> (error + artist list) \<times> event list" where
  "fetch_profiles h cfg net [] all_artists tr = (Inr all_artists, tr)"
| "fetch_profiles h cfg net (url # rest) all_artists tr =
     (case fetch_artist_profile h cfg net url tr of
        (Inl e, tr') \<Rightarrow> (Inl e, tr')
      | (Inr (Some a), tr') \<Rightarrow> fetch_profiles h cfg net rest (all_artists @ [a]) tr'
      | (Inr None, tr') \<Rightarrow> fetch_profiles h cfg net rest all_artists tr')"

text \<open>The loop over the keywords; an exception of a search is logged and skipped.\<close>

fun search_keywords ::
  "helpers \<Rightarrow> scraper_config \<Rightarrow> network \<Rightarrow> int \<Rightarrow> string list \<Rightarrow> artist list \<Rightarrow> event list
     \<Rightarrow> artist list \<times> event list" where
  "search_keywords h cfg net max_items [] all_artists tr = (all_artists, tr)"
| "search_keywords h cfg net max_items (keyword # rest) all_artists tr =
     (case search_artists h cfg net keyword max_items tr of
        (Inl exc, tr') \<Rightarrow> search_keywords h cfg net max_items rest all_artists tr'
      | (Inr artists, tr') \<Rightarrow>
          search_keywords h cfg net max_items rest (all_artists @ artists) tr')"

text \<open>
  \<open>raw.get\<close> on the loaded value: a value that is not a dict has no \<open>get\<close> (a list
  gives \<open>AttributeError\<close>).
\<close>

definition load_input_config :: "json \<Rightarrow> error + input_config" where
  "load_input_config raw =
     (case raw of JObj d \<Rightarrow> normalize_input_config d | _ \<Rightarrow> Inl AttributeError)"

definition main :: "helpers \<Rightarrow> network \<Rightarrow> runtime_settings \<Rightarrow> input_file \<Rightarrow> run" where
  "main h net st input =
     (case input of
        Missing \<Rightarrow> \<lparr>exit = SystemExit_not_found, events = [], exported = None\<rparr>
      | Unreadable \<Rightarrow> \<lparr>exit = SystemExit_1, events = [], exported = None\<rparr>
      | Loaded raw_input_cfg \<Rightarrow>
          (case load_input_config raw_input_cfg of
             Inl exc \<Rightarrow> \<lparr>exit = SystemExit_1, events = [], exported = None\<rparr>
           | Inr input_cfg \<Rightarrow>
               (let scraper = scraper_of_settings st in
                case fetch_profiles h scraper net (cfg_profiles input_cfg) [] [] of
                  (Inl e, tr1) \<Rightarrow> \<lparr>exit = Uncaught e, events = tr1, exported = None\<rparr>
                | (Inr artists1, tr1) \<Rightarrow>
                    (case search_keywords h scraper net (cfg_maxItemsPerKeyword input_cfg)
                            (cfg_keywords input_cfg) artists1 tr1 of
                       (all_artists, tr2) \<Rightarrow>
                         if all_artists = []
                         then \<lparr>exit = ExitNormally, events = tr2, exported = None\<rparr>
                         else \<lparr>exit = ExitNormally, events = tr2,
                                exported = Some (deduplicate_artists all_artists)\<rparr>))))"

section \<open>Concrete inputs\<close>

text \<open>Four artist records: two with the id 42, one with a URL only, one with no key.\<close>

definition artist_a :: artist where
  "artist_a = \<lparr>artist_id = Some (IntId 42),
     permalink_url = Some ''https://soundcloud.com/a'', username = Some ''A''\<rparr>"

definition artist_b :: artist where
  "artist_b = \<lparr>artist_id = None,
     permalink_url = Some ''https://soundcloud.com/b'', username = Some ''B''\<rparr>"

definition artist_c :: artist where
  "artist_c = \<lparr>artist_id = None, permalink_url = None, username = Some ''C''\<rparr>"

definition artist_a2 :: artist where
  "artist_a2 = \<lparr>artist_id = Some (IntId 42), permalink_url = None, username = Some ''A2''\<rparr>"

section \<open>Vocabulary for the claims on the HTTP client\<close>

text \<open>
  An attempt fails, as the code has it, when \<open>requests.get\<close> raises or the status is
  one \<open>raise_for_status\<close> rejects; \<open>failure_of\<close> is the exception the handler then
  catches.
\<close>

fun is_failure :: "outcome \<Rightarrow> bool" where
  "is_failure (Raises exc) = True"
| "is_failure (Returns resp) = (400 \<le> status_code resp \<and> status_code resp < 600)"

fun failure_of :: "outcome \<Rightarrow> request_exception" where
  "failure_of (Raises exc) = exc"
| "failure_of (Returns resp) = HTTPError (status_code resp)"

text \<open>
  The spec's notion of a failed attempt: a transport-level exception or a status that
  is not 2xx.
\<close>

fun non_2xx_failure :: "outcome \<Rightarrow> bool" where
  "non_2xx_failure (Raises exc) = True"
| "non_2xx_failure (Returns resp) = (\<not> (200 \<le> status_code resp \<and> status_code resp < 300))"

text \<open>
  The events of the attempts \<open>a + 1\<close> to \<open>n\<close> when each fails: a request per attempt
  and, between two attempts, a sleep; the sleep after attempt \<open>k + 1\<close> lasts
  \<open>backoff_factor * 2 ^ k\<close>.
\<close>

definition retry_events :: "string \<Rightarrow> real \<Rightarrow> nat \<Rightarrow> nat \<Rightarrow> event list" where
  "retry_events url b a n =
     concat (map (\<lambda>k. Request url # (if Suc k < n then [Sleep (b * 2 ^ k)] else [])) [a..<n])"

text \<open>The durations of the sleeps of a trace, in order.\<close>

fun sleeps :: "event list \<Rightarrow> real list" where
  "sleeps [] = []"
| "sleeps (Request u # tr) = sleeps tr"
| "sleeps (Sleep d # tr) = d # sleeps tr"

text \<open>
  Three networks: one that refuses two connections and then answers 503, one that
  answers every request with 304 Not Modified, one that is down.
\<close>

definition net_flaky :: network where
  "net_flaky k url =
     (if k = 2 then Returns \<lparr>status_code = 503, resp_text = ''Service Unavailable''\<rparr>
      else Raises (TransportError ''connection refused''))"

definition net_not_modified :: network where
  "net_not_modified k url = Returns \<lparr>status_code = 304, resp_text = ''''\<rparr>"

definition net_down :: network where
  "net_down k url = Raises (TransportError ''timed out'')"

section \<open>Vocabulary for the claims on the input configuration and the scraper\<close>

text \<open>A string that is empty or holds whitespace only.\<close>

definition blank :: "string \<Rightarrow> bool" where
  "blank s = list_all py_isspace s"

text \<open>
  The entries the normaliser keeps, in the spec's words: the strings that are neither
  empty nor whitespace-only; every other entry is filtered out.
\<close>

fun nonblank_str :: "json \<Rightarrow> bool" where
  "nonblank_str (JStr s) = (\<not> blank s)"
| "nonblank_str v = False"

fun the_str :: "json \<Rightarrow> string" where
  "the_str (JStr s) = s"
| "the_str v = []"

definition kept_entries :: "json list \<Rightarrow> string list" where
  "kept_entries xs = map the_str (filter nonblank_str xs)"

text \<open>A value for \<open>profiles\<close> or \<open>keywords\<close> that is truthy and not a list.\<close>

fun is_list :: "json \<Rightarrow> bool" where
  "is_list (JList xs) = True"
| "is_list v = False"

definition truthy_non_list :: "json option \<Rightarrow> bool" where
  "truthy_non_list entry = (case entry of None \<Rightarrow> False | Some v \<Rightarrow> truthy v \<and> \<not> is_list v)"

text \<open>
  A value for \<open>maxItemsPerKeyword\<close> that \<open>int()\<close> rejects with \<open>TypeError\<close> or
  \<open>ValueError\<close> (null, a list, an object, NaN, a string that is no integer literal),
  or that it converts to an integer that is not positive.
\<close>

fun bad_max :: "json \<Rightarrow> bool" where
  "bad_max JNull = True"
| "bad_max (JBool b) = (\<not> b)"
| "bad_max (JInt i) = (i \<le> 0)"
| "bad_max (JFloat (Finite x)) = (trunc x \<le> 0)"
| "bad_max (JFloat PosInf) = False"
| "bad_max (JFloat NegInf) = False"
| "bad_max (JFloat NaN) = True"
| "bad_max (JStr s) = (case int_of_str s of None \<Rightarrow> True | Some i \<Rightarrow> i \<le> 0)"
| "bad_max (JList xs) = True"
| "bad_max (JObj kvs) = True"

definition malformed :: "dict \<Rightarrow> bool" where
  "malformed raw =
     (truthy_non_list (dict_get raw ''profiles'') \<or>
      truthy_non_list (dict_get raw ''keywords'') \<or>
      (case dict_get raw ''maxItemsPerKeyword'' of None \<Rightarrow> False | Some v \<Rightarrow> bad_max v))"

text \<open>
  Helpers for concrete runs: a page that starts with \<open>H\<close> carries the hydration text
  after it; the hydration text \<open>[1,2,3]\<close> parses to three user entries, each an
  integer that is the artist's id; any other text is malformed; every search page
  links the profiles \<open>/a\<close> and \<open>/b\<close>.
\<close>

definition example_helpers :: helpers where
  "example_helpers =
     \<lparr>quote = (\<lambda>s. s),
      urljoin = (\<lambda>base path. base @ path),
      json_loads = (\<lambda>s. if s = ''[1,2,3]'' then Inr (JList [JInt 1, JInt 2, JInt 3])
                          else Inl (ValueError ''Expecting value'')),
      search_primary = (\<lambda>html. if take 1 html = ''H'' then Some (drop 1 html) else None),
      search_loose = (\<lambda>html. None),
      find_user_block = (\<lambda>blocks. None),
      find_user_list = (\<lambda>blocks. blocks),
      normalize_artist =
        (\<lambda>user url. case user of
            JInt i \<Rightarrow> Some \<lparr>artist_id = Some (IntId i), permalink_url = url, username = None\<rparr>
          | _ \<Rightarrow> None),
      parse_from_meta_tags =
        (\<lambda>html url. Some \<lparr>artist_id = None, permalink_url = Some url, username = None\<rparr>),
      extract_profile_links_from_search_page = (\<lambda>html. [''/a'', ''/b''])\<rparr>"

definition no_settings :: runtime_settings where
  "no_settings =
     \<lparr>s_base_url = None, s_timeout = None, s_max_retries = None, s_backoff_factor = None,
      s_user_agent = None, s_proxy = None\<rparr>"

text \<open>A network whose first answer is a page with three users in its hydration data.\<close>

definition net_search :: network where
  "net_search k url =
     Returns \<lparr>status_code = 200, resp_text = (if k = 0 then ''H[1,2,3]'' else ''<html>'')\<rparr>"

text \<open>
  Input configurations: a valid one (its \<open>profiles\<close> hold two entries to drop), one
  with the maximum 0, one whose maximum is the string of the separator 0x1C and the
  digit 7, one with the maximum given as the string \<open>"7"\<close> and one with the maximum 2.5.
\<close>

definition input_valid :: dict where
  "input_valid =
     [(''profiles'', JList [JStr ''https://soundcloud.com/a'', JInt 7, JStr ''  '',
         JStr '' user2 '']),
      (''keywords'', JList [JStr ''lofi''])]"

definition input_zero_max :: dict where
  "input_zero_max =
     [(''profiles'', JList [JStr ''https://soundcloud.com/a'']),
      (''maxItemsPerKeyword'', JInt 0)]"

definition input_separator_max :: dict where
  "input_separator_max =
     [(''keywords'', JList [JStr ''lofi'']),
      (''maxItemsPerKeyword'', JStr [CHR 0x1C, CHR ''7''])]"

definition input_string_max :: dict where
  "input_string_max =
     [(''keywords'', JList [JStr ''lofi'']), (''maxItemsPerKeyword'', JStr ''7'')]"

definition input_float_max :: dict where
  "input_float_max =
     [(''keywords'', JList [JStr ''lofi'']), (''maxItemsPerKeyword'', JFloat (Finite 2.5))]"

section \<open>Properties of deduplication\<close>

lemma dedupe_loop_from:
  "dedupe_loop seen_ids seen_urls result xs = result @ dedupe_from (seen_ids \<union> seen_urls) xs"
proof (induction xs arbitrary: seen_ids seen_urls result)
  case Nil
  show ?case by simp
next
  case (Cons a rest)
  show ?case
  proof (cases "artist_key a")
    case None
    then show ?thesis by (simp add: Cons.IH)
  next
    case (Some k)
    then show ?thesis by (cases k) (simp_all add: Cons.IH)
  qed
qed

lemma dedupe_from_idem: "dedupe_from seen (dedupe_from seen xs) = dedupe_from seen xs"
proof (induction xs arbitrary: seen)
  case Nil
  show ?case by simp
next
  case (Cons a rest)
  show ?case
  proof (cases "artist_key a")
    case None
    then show ?thesis by (simp add: Cons.IH)
  next
    case (Some k)
    then show ?thesis by (simp add: Cons.IH)
  qed
qed

lemma dedupe_from_keyless:
  "filter (\<lambda>a. artist_key a = None) (dedupe_from seen xs) = filter (\<lambda>a. artist_key a = None) xs"
  by (induction xs arbitrary: seen) (auto split: option.splits)

lemma upt_Suc_shift: "[0..<Suc n] = 0 # map Suc [0..<n]"
  by (simp add: upt_conv_Cons map_Suc_upt del: upt_Suc)

lemma select_Cons:
  "map (\<lambda>i. (a # xs) ! i) (filter P [0..<Suc (length xs)]) =
     (if P 0 then [a] else []) @ map (\<lambda>i. xs ! i) (filter (\<lambda>i. P (Suc i)) [0..<length xs])"
  by (simp add: upt_Suc_shift filter_map comp_def del: upt_Suc)

lemma dedupe_from_select:
  "dedupe_from seen xs = map (\<lambda>i. xs ! i) (filter (retained_from seen xs) [0..<length xs])"
proof (induction xs arbitrary: seen)
  case Nil
  show ?case by simp
next
  case (Cons a rest)
  have sel:
    "map (\<lambda>i. (a # rest) ! i)
       (filter (retained_from seen (a # rest)) [0..<length (a # rest)]) =
     (if retained_from seen (a # rest) 0 then [a] else []) @
     map (\<lambda>i. rest ! i)
       (filter (\<lambda>i. retained_from seen (a # rest) (Suc i)) [0..<length rest])"
    using select_Cons [of a rest "retained_from seen (a # rest)"] by simp
  show ?case
  proof (cases "artist_key a")
    case None
    have "\<And>i. retained_from seen (a # rest) (Suc i) = retained_from seen rest i"
      using None by (auto simp: retained_from_def)
    then show ?thesis
      using None by (simp only: sel) (simp add: Cons.IH retained_from_def)
  next
    case (Some k)
    show ?thesis
    proof (cases "k \<in> seen")
      case True
      have "\<And>i. retained_from seen (a # rest) (Suc i) = retained_from seen rest i"
        using Some True by (auto simp: retained_from_def)
      then show ?thesis
        using Some True by (simp only: sel) (simp add: Cons.IH retained_from_def)
    next
      case False
      have "\<And>i. retained_from seen (a # rest) (Suc i) = retained_from (insert k seen) rest i"
        using Some False by (auto simp: retained_from_def)
      then show ?thesis
        using Some False by (simp only: sel) (auto simp add: Cons.IH retained_from_def)
    qed
  qed
qed

text \<open>
  C4. Deduplication is idempotent: deduplicating the result of a deduplication gives
  that result again, for every list of artist records.
\<close>

theorem deduplicate_artists_idempotent:
  "deduplicate_artists (deduplicate_artists xs) = deduplicate_artists xs"
  by (simp add: deduplicate_artists_def dedupe_loop_from dedupe_from_idem)

text \<open>
  C5. For every list of artist records, the result of \<open>_deduplicate_artists\<close> is the
  input's records at the retained positions, in the input's order: a position is
  retained when its record has no identity key or is the first occurrence of its key
  (the key is the \<open>id\<close> when there is one, else the \<open>permalink_url\<close> when that is a
  non-empty string).  The records without a key all come through, each as often as
  it occurs and in their order, so no two of them are merged.
\<close>

theorem deduplicate_artists_first_occurrences:
  "deduplicate_artists xs = dedupe_spec xs \<and>
   filter (\<lambda>a. artist_key a = None) (deduplicate_artists xs) =
     filter (\<lambda>a. artist_key a = None) xs"
proof -
  have "retained_from {} xs = retained xs"
    by (rule ext) (simp add: retained_from_def retained_def)
  then have "deduplicate_artists xs = dedupe_spec xs"
    by (simp add: deduplicate_artists_def dedupe_spec_def dedupe_loop_from dedupe_from_select)
  moreover have "filter (\<lambda>a. artist_key a = None) (deduplicate_artists xs) =
      filter (\<lambda>a. artist_key a = None) xs"
    by (simp add: deduplicate_artists_def dedupe_loop_from dedupe_from_keyless)
  ultimately show ?thesis by simp
qed

theorem deduplicate_artists_first_occurrences_witness:
  "deduplicate_artists [artist_a, artist_c, artist_b, artist_a2, artist_c, artist_b] =
     [artist_a, artist_c, artist_b, artist_c] \<and>
   dedupe_spec [artist_a, artist_c, artist_b, artist_a2, artist_c, artist_b] =
     [artist_a, artist_c, artist_b, artist_c]"
proof -
  have run: "deduplicate_artists [artist_a, artist_c, artist_b, artist_a2, artist_c, artist_b] =
      [artist_a, artist_c, artist_b, artist_c]"
    by (simp add: deduplicate_artists_def artist_key_def artist_a_def artist_b_def
        artist_c_def artist_a2_def)
  from deduplicate_artists_first_occurrences
    [of "[artist_a, artist_c, artist_b, artist_a2, artist_c, artist_b]"]
  have "dedupe_spec [artist_a, artist_c, artist_b, artist_a2, artist_c, artist_b] =
      deduplicate_artists [artist_a, artist_c, artist_b, artist_a2, artist_c, artist_b]"
    by simp
  with run show ?thesis by simp
qed

section \<open>Properties of the HTTP client\<close>


lemma count_requests_append [simp]:
  "count_requests (tr @ tr') = count_requests tr + count_requests tr'"
  by (simp add: count_requests_def)

lemma count_requests_simps [simp]:
  "count_requests [] = 0"
  "count_requests (Request u # tr) = Suc (count_requests tr)"
  "count_requests (Sleep d # tr) = count_requests tr"
  by (simp_all add: count_requests_def)

lemma sleeps_append [simp]: "sleeps (tr @ tr') = sleeps tr @ sleeps tr'"
  by (induction tr rule: sleeps.induct) simp_all

lemma try_request_failure:
  "is_failure (net (count_requests tr) url) \<Longrightarrow>
   try_request net url tr = (Inl (failure_of (net (count_requests tr) url)), tr @ [Request url])"
  by (cases "net (count_requests tr) url")
     (simp_all add: try_request_def requests_get_def raise_for_status_def)

lemma try_request_trace: "snd (try_request net url tr) = tr @ [Request url]"
  by (simp add: try_request_def requests_get_def split: outcome.splits option.splits)

lemma retry_events_empty: "n \<le> a \<Longrightarrow> retry_events url b a n = []"
  by (simp add: retry_events_def)

lemma retry_events_last: "Suc a = n \<Longrightarrow> retry_events url b a n = [Request url]"
  by (auto simp add: retry_events_def)

lemma retry_events_step:
  "Suc a < n \<Longrightarrow>
   retry_events url b a n = Request url # Sleep (b * 2 ^ a) # retry_events url b (Suc a) n"
  by (simp add: retry_events_def upt_conv_Cons)

lemma sleep_accepted:
  assumes "0 \<le> b" and "Suc a < n" and "n \<le> 1025" and "b * 2 ^ (n - 2) \<le> 9 * 10 ^ 9"
  shows "backoff_delay b (Suc a) = Inr (b * 2 ^ a)" and "time_sleep (b * 2 ^ a) = None"
proof -
  show "backoff_delay b (Suc a) = Inr (b * 2 ^ a)"
    using assms(2,3) by (simp add: backoff_delay_def)
  have "a \<le> n - 2" using assms(2) by simp
  then have "(2::real) ^ a \<le> 2 ^ (n - 2)" by (simp add: power_increasing)
  then have "b * 2 ^ a \<le> b * 2 ^ (n - 2)" using assms(1) by (simp add: mult_left_mono)
  then have "b * 2 ^ a \<le> 9 * 10 ^ 9" using assms(4) by linarith
  moreover have "(9::real) * 10 ^ 9 \<le> max_sleep" by (simp add: max_sleep_def)
  ultimately have "\<not> max_sleep < b * 2 ^ a" by linarith
  moreover have "\<not> b * 2 ^ a < 0" using assms(1) by (simp add: mult_less_0_iff)
  ultimately show "time_sleep (b * 2 ^ a) = None" by (simp add: time_sleep_def)
qed

lemma http_get_loop_all_fail:
  assumes "0 \<le> b" and "int a < m" and "m \<le> 1025" and "b * 2 ^ (nat m - 2) \<le> 9 * 10 ^ 9"
    and "\<forall>k. a \<le> k \<and> int k < m \<longrightarrow> is_failure (net (count_requests tr + (k - a)) url)"
  shows "http_get_loop net url m b a last_exc tr =
     (Inl (RequestException (failure_of (net (count_requests tr + (nat m - 1 - a)) url))),
      tr @ retry_events url b a (nat m))"
  using assms(2,5)
proof (induction "nat m - Suc a" arbitrary: a last_exc tr)
  case 0
  then have last: "Suc a = nat m" by linarith
  from "0.prems" have "is_failure (net (count_requests tr) url)"
    by (metis add.right_neutral diff_self_eq_0 order_refl)
  then have "try_request net url tr =
      (Inl (failure_of (net (count_requests tr) url)), tr @ [Request url])"
    by (rule try_request_failure)
  moreover have "nat m - 1 - a = 0" using last by simp
  moreover have "m \<le> int a + 1" using last by linarith
  ultimately show ?case
    using "0.prems"(1) last
    by (subst http_get_loop.simps) (simp add: after_loop_def retry_events_last)
next
  case (Suc d)
  then have more: "Suc a < nat m" by linarith
  then have more': "\<not> m \<le> int a + 1" by linarith
  have bound: "nat m \<le> 1025" using assms(3) by simp
  from Suc.prems have "is_failure (net (count_requests tr) url)"
    by (metis add.right_neutral diff_self_eq_0 order_refl)
  then have tr: "try_request net url tr =
      (Inl (failure_of (net (count_requests tr) url)), tr @ [Request url])"
    by (rule try_request_failure)
  have d: "d = nat m - Suc (Suc a)" using Suc.hyps(2) by simp
  have lt: "int (Suc a) < m" using more by linarith
  have fails: "\<forall>k. Suc a \<le> k \<and> int k < m \<longrightarrow>
      is_failure (net (count_requests (tr @ [Request url, Sleep (b * 2 ^ a)]) + (k - Suc a)) url)"
  proof (intro allI impI)
    fix k assume k: "Suc a \<le> k \<and> int k < m"
    then have "is_failure (net (count_requests tr + (k - a)) url)"
      using Suc.prems(2) by simp
    moreover have "count_requests tr + (k - a) =
        count_requests (tr @ [Request url, Sleep (b * 2 ^ a)]) + (k - Suc a)"
      using k by auto
    ultimately show "is_failure
        (net (count_requests (tr @ [Request url, Sleep (b * 2 ^ a)]) + (k - Suc a)) url)"
      by simp
  qed
  have ih: "http_get_loop net url m b (Suc a) (Some (failure_of (net (count_requests tr) url)))
        (tr @ [Request url, Sleep (b * 2 ^ a)]) =
     (Inl (RequestException (failure_of
        (net (count_requests (tr @ [Request url, Sleep (b * 2 ^ a)]) + (nat m - 1 - Suc a)) url))),
      (tr @ [Request url, Sleep (b * 2 ^ a)]) @ retry_events url b (Suc a) (nat m))"
    using Suc.hyps(1) [OF d lt fails] .
  have idx: "count_requests (tr @ [Request url, Sleep (b * 2 ^ a)]) + (nat m - 1 - Suc a) =
      count_requests tr + (nat m - 1 - a)"
    using more by simp
  note ok = sleep_accepted [OF assms(1) more bound assms(4)]
  have step: "http_get_loop net url m b a last_exc tr =
      http_get_loop net url m b (Suc a) (Some (failure_of (net (count_requests tr) url)))
        (tr @ [Request url, Sleep (b * 2 ^ a)])"
    using Suc.prems(1) more'
    by (subst http_get_loop.simps) (simp add: tr Let_def ok)
  show ?case
    unfolding step ih idx by (simp add: retry_events_step [OF more])
qed

lemma http_get_loop_events:
  "\<exists>j. snd (http_get_loop net url m b a last_exc tr) = tr @ take j (retry_events url b a (nat m))"
proof (induction "nat m - a" arbitrary: a last_exc tr)
  case 0
  then have "\<not> int a < m" by linarith
  then have "snd (http_get_loop net url m b a last_exc tr) = tr"
    by (subst http_get_loop.simps) simp
  then have "snd (http_get_loop net url m b a last_exc tr) =
      tr @ take 0 (retry_events url b a (nat m))" by simp
  then show ?case by blast
next
  case (Suc d)
  then have lt: "int a < m" by linarith
  have hd: "take 1 (retry_events url b a (nat m)) = [Request url]"
    using lt by (simp add: retry_events_def upt_conv_Cons)
  obtain r tr' where t: "try_request net url tr = (r, tr')" by (cases "try_request net url tr")
  then have tr': "tr' = tr @ [Request url]" using try_request_trace [of net url tr] by simp
  have one: "snd (http_get_loop net url m b a last_exc tr) = tr @ [Request url] \<Longrightarrow> ?case"
    using hd by metis
  show ?case
  proof (cases r)
    case (Inr resp)
    then have "snd (http_get_loop net url m b a last_exc tr) = tr @ [Request url]"
      using lt t tr' by (subst http_get_loop.simps) simp
    then show ?thesis by (rule one)
  next
    case (Inl exc)
    show ?thesis
    proof (cases "\<not> m \<le> int a + 1 \<and> backoff_delay b (Suc a) = Inr (b * 2 ^ a) \<and>
        time_sleep (b * 2 ^ a) = None")
      case False
      then have "snd (http_get_loop net url m b a last_exc tr) = tr @ [Request url]"
        using lt t tr' Inl
        by (subst http_get_loop.simps)
           (auto simp: Let_def backoff_delay_def split: sum.splits option.splits if_splits)
      then show ?thesis by (rule one)
    next
      case True
      then have more: "Suc a < nat m" by linarith
      have step: "http_get_loop net url m b a last_exc tr =
          http_get_loop net url m b (Suc a) (Some exc) (tr @ [Request url, Sleep (b * 2 ^ a)])"
        using lt t tr' Inl True by (subst http_get_loop.simps) (simp add: Let_def)
      have d: "d = nat m - Suc a" using Suc.hyps(2) by simp
      from Suc.hyps(1) [OF d] obtain j where
        "snd (http_get_loop net url m b (Suc a) (Some exc) (tr @ [Request url, Sleep (b * 2 ^ a)])) =
          (tr @ [Request url, Sleep (b * 2 ^ a)]) @ take j (retry_events url b (Suc a) (nat m))"
        by blast
      then have "snd (http_get_loop net url m b a last_exc tr) =
          tr @ take (Suc (Suc j)) (retry_events url b a (nat m))"
        unfolding step by (simp add: retry_events_step [OF more])
      then show ?thesis by blast
    qed
  qed
qed

lemma http_get_loop_no_assertion:
  "last_exc \<noteq> None \<or> int a < m \<Longrightarrow>
   fst (http_get_loop net url m b a last_exc tr) \<noteq> Inl AssertionError"
proof (induction "nat m - a" arbitrary: a last_exc tr)
  case 0
  then have "\<not> int a < m" by linarith
  then show ?case
    using "0.prems" by (subst http_get_loop.simps) (auto simp: after_loop_def)
next
  case (Suc d)
  then have lt: "int a < m" by linarith
  obtain r tr' where t: "try_request net url tr = (r, tr')"
    by (cases "try_request net url tr")
  show ?case
  proof (cases r)
    case (Inr resp)
    then show ?thesis using lt t by (subst http_get_loop.simps) simp
  next
    case (Inl exc)
    show ?thesis
    proof (cases "\<not> m \<le> int a + 1 \<and> backoff_delay b (Suc a) = Inr (b * 2 ^ a) \<and>
        time_sleep (b * 2 ^ a) = None")
      case False
      then show ?thesis
        using lt t Inl
        by (subst http_get_loop.simps)
           (auto simp: Let_def after_loop_def backoff_delay_def time_sleep_def
              split: sum.splits option.splits if_splits)
    next
      case True
      have d: "d = nat m - Suc a" using Suc.hyps(2) by simp
      have "fst (http_get_loop net url m b (Suc a) (Some exc) (tr' @ [Sleep (b * 2 ^ a)]))
          \<noteq> Inl AssertionError"
        by (rule Suc.hyps(1) [OF d]) simp
      then show ?thesis
        using lt t Inl True by (subst http_get_loop.simps) (simp add: Let_def)
    qed
  qed
qed

lemma sleeps_retry_events:
  "sleeps (retry_events url b a n) = map (\<lambda>k. b * 2 ^ k) [a..<n - 1]"
proof (induction "n - a" arbitrary: a)
  case 0
  then show ?case by (simp add: retry_events_def)
next
  case (Suc d)
  show ?case
  proof (cases "Suc a < n")
    case True
    have "d = n - Suc a" using Suc.hyps(2) by simp
    from Suc.hyps(1) [OF this] True show ?thesis
      by (simp add: retry_events_step upt_conv_Cons)
  next
    case False
    with Suc.hyps(2) have "Suc a = n" by simp
    then show ?thesis by (auto simp add: retry_events_last)
  qed
qed



lemma count_requests_retry_events: "count_requests (retry_events url b a n) = n - a"
proof (induction "n - a" arbitrary: a)
  case 0
  then show ?case by (simp add: retry_events_def)
next
  case (Suc d)
  show ?case
  proof (cases "Suc a < n")
    case True
    have "d = n - Suc a" using Suc.hyps(2) by simp
    from Suc.hyps(1) [OF this] True show ?thesis
      by (simp add: retry_events_step)
  next
    case False
    with Suc.hyps(2) have "Suc a = n" by simp
    then show ?thesis by (auto simp add: retry_events_last)
  qed
qed

lemma http_get_all_fail:
  assumes "0 \<le> b" and "m \<le> 1025" and "b * 2 ^ (nat m - 2) \<le> 9 * 10 ^ 9"
    and "\<forall>k<nat m. is_failure (net (count_requests tr + k) url)"
  shows "snd (http_get net url m b tr) = tr @ retry_events url b 0 (nat m)"
    and "1 \<le> m \<Longrightarrow> fst (http_get net url m b tr) =
      Inl (RequestException (failure_of (net (count_requests tr + (nat m - 1)) url)))"
proof -
  show "snd (http_get net url m b tr) = tr @ retry_events url b 0 (nat m)"
  proof (cases "1 \<le> m")
    case True
    then have "int 0 < m" by simp
    moreover have "\<forall>k. 0 \<le> k \<and> int k < m \<longrightarrow> is_failure (net (count_requests tr + (k - 0)) url)"
      using assms(4) by auto
    ultimately show ?thesis
      using http_get_loop_all_fail [OF assms(1) _ assms(2,3), of 0 net tr url None]
      by (simp add: http_get_def)
  next
    case False
    then have "\<not> int 0 < m" by simp
    then have "http_get net url m b tr = (Inl (after_loop None), tr)"
      unfolding http_get_def by (subst http_get_loop.simps) simp
    then show ?thesis using False by (simp add: retry_events_empty)
  qed
next
  assume "1 \<le> m"
  then have "int 0 < m" by simp
  moreover have "\<forall>k. 0 \<le> k \<and> int k < m \<longrightarrow> is_failure (net (count_requests tr + (k - 0)) url)"
    using assms(4) by auto
  ultimately show "fst (http_get net url m b tr) =
      Inl (RequestException (failure_of (net (count_requests tr + (nat m - 1)) url)))"
    using http_get_loop_all_fail [OF assms(1) _ assms(2,3), of 0 net tr url None]
    by (simp add: http_get_def)
qed

lemma backoff_delays: "map (\<lambda>n. b * 2 ^ (n - 2)) [2..<Suc m] = map (\<lambda>k. (b::real) * 2 ^ k) [0..<m - 1]"
proof -
  have "[2..<Suc m] = map (\<lambda>i. i + 2) [0..<m - 1]"
  proof (cases m)
    case 0
    then show ?thesis by simp
  next
    case (Suc n)
    then show ?thesis using map_add_upt [of 2 n] by simp
  qed
  then show ?thesis by (simp add: comp_def)
qed

text \<open>
  C2 (amended). For every call of \<open>http_get\<close> in which each of the \<open>max_retries\<close>
  attempts fails, by a \<open>RequestException\<close> of \<open>requests.get\<close> or by a status from 400
  to 599 (the \<open>HTTPError\<close> of \<open>raise_for_status\<close>), and in which every sleep between
  the attempts can take place (\<open>1 \<le> max_retries \<le> 1025\<close>, \<open>backoff_factor \<ge> 0\<close> and
  the longest delay \<open>backoff_factor * 2 ^ (max_retries - 2)\<close> at most \<open>9e9\<close> seconds),
  the function makes exactly \<open>max_retries\<close> requests and raises the exception of the
  last attempt, no other error and no normal return.
\<close>

theorem http_get_raises_last_exception:
  assumes "1 \<le> m" and "m \<le> 1025" and "0 \<le> b" and "b * 2 ^ (nat m - 2) \<le> 9 * 10 ^ 9"
    and "\<forall>k<nat m. is_failure (net (count_requests tr + k) url)"
  shows "fst (http_get net url m b tr) =
      Inl (RequestException (failure_of (net (count_requests tr + (nat m - 1)) url))) \<and>
    count_requests (snd (http_get net url m b tr)) =
      count_requests tr + nat m"
  using http_get_all_fail [of b m net tr url] assms
  by (simp add: count_requests_retry_events)

theorem http_get_raises_last_exception_witness:
  "fst (http_get net_flaky ''https://soundcloud.com/a'' 3 0.5 []) =
     Inl (RequestException (HTTPError 503)) \<and>
   count_requests (snd (http_get net_flaky ''https://soundcloud.com/a'' 3 0.5 [])) = 3"
  using http_get_raises_last_exception [where m = 3 and b = "0.5" and net = net_flaky and tr = "[]" and url = "''https://soundcloud.com/a''"]
  by (simp add: net_flaky_def)

text \<open>
  The claim as stated counts every status that is not 2xx as a failed attempt.  A
  network that answers 304 fails each of three attempts in that sense, and \<open>http_get\<close>
  returns the first response normally after one request.
\<close>

theorem http_get_non_2xx_counterexample:
  "non_2xx_failure (net_not_modified 0 ''https://soundcloud.com/a'') \<and>
   non_2xx_failure (net_not_modified 1 ''https://soundcloud.com/a'') \<and>
   non_2xx_failure (net_not_modified 2 ''https://soundcloud.com/a'') \<and>
   http_get net_not_modified ''https://soundcloud.com/a'' 3 0.5 [] =
     (Inr \<lparr>status_code = 304, resp_text = ''''\<rparr>, [Request ''https://soundcloud.com/a''])"
  by (simp add: http_get_def http_get_loop.simps try_request_def requests_get_def
      raise_for_status_def net_not_modified_def)

text \<open>
  C3 (amended). The events \<open>http_get\<close> adds to the trace are an initial part of the
  sequence request, sleep \<open>backoff_factor * 2 ^ 0\<close>, request, sleep
  \<open>backoff_factor * 2 ^ 1\<close>, ..., request: whenever attempt \<open>n \<ge> 2\<close> is made, the sleep
  before it lasts \<open>backoff_factor * 2 ^ (n - 2)\<close>.  When every attempt fails and every
  sleep can take place (\<open>max_retries \<le> 1025\<close>, \<open>backoff_factor \<ge> 0\<close>, the longest
  delay at most \<open>9e9\<close> seconds), the whole sequence is run, with one sleep before each
  of the attempts 2 to \<open>max_retries\<close>.  With \<open>max_retries = 3\<close>, three failing attempts
  and \<open>0 < backoff_factor \<le> 4.5e9\<close>, exactly two sleeps occur, the second strictly
  longer than the first, and the last error is raised.
\<close>

theorem http_get_backoff:
  "(\<exists>j. snd (http_get net url m b tr) =
        tr @ take j (retry_events url b 0 (nat m))) \<and>
   (0 \<le> b \<and> m \<le> 1025 \<and> b * 2 ^ (nat m - 2) \<le> 9 * 10 ^ 9 \<and>
    (\<forall>k<nat m. is_failure (net (count_requests tr + k) url)) \<longrightarrow>
      snd (http_get net url m b tr) =
        tr @ retry_events url b 0 (nat m) \<and>
      sleeps (snd (http_get net url m b tr)) =
        sleeps tr @ map (\<lambda>n. b * 2 ^ (n - 2)) [2..<Suc (nat m)]) \<and>
   (0 < b \<and> b * 2 \<le> 9 * 10 ^ 9 \<and> m = 3 \<and>
    (\<forall>k<3. is_failure (net (count_requests tr + k) url)) \<longrightarrow>
      sleeps (snd (http_get net url m b tr)) =
        sleeps tr @ [b, b * 2] \<and>
      b < b * 2 \<and>
      fst (http_get net url m b tr) =
        Inl (RequestException (failure_of (net (count_requests tr + 2) url))))"
proof (intro conjI impI)
  show "\<exists>j. snd (http_get net url m b tr) =
        tr @ take j (retry_events url b 0 (nat m))"
    unfolding http_get_def by (rule http_get_loop_events)
next
  assume h: "0 \<le> b \<and> m \<le> 1025 \<and> b * 2 ^ (nat m - 2) \<le> 9 * 10 ^ 9 \<and>
    (\<forall>k<nat m. is_failure (net (count_requests tr + k) url))"
  then show all: "snd (http_get net url m b tr) =
        tr @ retry_events url b 0 (nat m)"
    using http_get_all_fail(1) [of b m net tr url] by blast
  show "sleeps (snd (http_get net url m b tr)) =
        sleeps tr @ map (\<lambda>n. b * 2 ^ (n - 2)) [2..<Suc (nat m)]"
    unfolding all by (simp only: sleeps_append sleeps_retry_events backoff_delays)
next
  assume h: "0 < b \<and> b * 2 \<le> 9 * 10 ^ 9 \<and> m = 3 \<and>
    (\<forall>k<3. is_failure (net (count_requests tr + k) url))"
  then have b: "0 \<le> b" and m: "m = 3" and le: "m \<le> 1025"
    and d: "b * 2 ^ (nat m - 2) \<le> 9 * 10 ^ 9"
    and f: "\<forall>k<nat m. is_failure (net (count_requests tr + k) url)"
    by simp_all
  have three: "[0..<2] = [0, Suc 0]" by (simp add: upt_rec)
  show "sleeps (snd (http_get net url m b tr)) =
        sleeps tr @ [b, b * 2]"
    using http_get_all_fail(1) [of b m net tr url] b le d f m
    by (simp add: sleeps_retry_events three)
  show "b < b * 2" using h by simp
  show "fst (http_get net url m b tr) =
        Inl (RequestException (failure_of (net (count_requests tr + 2) url)))"
    using http_get_all_fail(2) [of b m net tr url] b le d f m by simp
qed

theorem http_get_backoff_witness:
  "snd (http_get net_down ''https://soundcloud.com/a'' 3 0.5 []) =
     [Request ''https://soundcloud.com/a'', Sleep 0.5, Request ''https://soundcloud.com/a'',
      Sleep 1, Request ''https://soundcloud.com/a''] \<and>
   sleeps (snd (http_get net_down ''https://soundcloud.com/a'' 3 0.5 [])) = [0.5, 1] \<and>
   fst (http_get net_down ''https://soundcloud.com/a'' 3 0.5 []) =
     Inl (RequestException (TransportError ''timed out''))"
proof -
  have three: "[0..<3] = [0, Suc 0, 2]" by (simp add: upt_rec)
  show ?thesis
    using http_get_backoff [where m = 3 and b = "0.5" and net = net_down and tr = "[]" and url = "''https://soundcloud.com/a''"]
    by (simp add: net_down_def retry_events_def three)
qed

text \<open>
  With \<open>backoff_factor = 0\<close> the two sleeps of three failing attempts both last 0
  seconds: their durations do not increase strictly.
\<close>

theorem http_get_backoff_zero_counterexample:
  "sleeps (snd (http_get net_down ''https://soundcloud.com/a'' 3 0 [])) = [0, 0] \<and>
   fst (http_get net_down ''https://soundcloud.com/a'' 3 0 []) =
     Inl (RequestException (TransportError ''timed out''))"
  by (simp add: http_get_def http_get_loop.simps try_request_def requests_get_def
      raise_for_status_def net_down_def after_loop_def backoff_delay_def time_sleep_def
      max_sleep_def)

text \<open>
  Where a sleep cannot take place, the exception of the delay leaves \<open>http_get\<close>
  after the first request: a delay of \<open>1e10\<close> seconds is beyond what \<open>time.sleep\<close>
  accepts.
\<close>

lemma http_get_sleep_overflow:
  "http_get net_down ''https://soundcloud.com/a'' 2 (10 ^ 10) [] =
     (Inl OverflowError, [Request ''https://soundcloud.com/a''])"
  by (simp add: http_get_def http_get_loop.simps try_request_def requests_get_def
      raise_for_status_def net_down_def backoff_delay_def time_sleep_def max_sleep_def)

text \<open>
  C10. With \<open>max_retries \<ge> 1\<close>, \<open>http_get\<close> never fails its final assertion
  (whatever the network answers, its result is not an \<open>AssertionError\<close>); with
  \<open>max_retries \<le> 0\<close> the loop body never runs (the trace is unchanged, no request is
  made) and the function raises \<open>AssertionError\<close>, neither returning a response nor
  raising a \<open>RequestException\<close>.
\<close>

theorem http_get_assertion:
  "(1 \<le> m \<longrightarrow>
      fst (http_get net url m b tr) \<noteq> Inl AssertionError) \<and>
   (m \<le> 0 \<longrightarrow>
      http_get net url m b tr = (Inl AssertionError, tr))"
proof (intro conjI impI)
  assume "1 \<le> m"
  then have "None \<noteq> (None :: request_exception option) \<or> int 0 < m" by simp
  then show "fst (http_get net url m b tr) \<noteq> Inl AssertionError"
    unfolding http_get_def by (rule http_get_loop_no_assertion)
next
  assume "m \<le> 0"
  then show "http_get net url m b tr = (Inl AssertionError, tr)"
    unfolding http_get_def by (subst http_get_loop.simps) (simp add: after_loop_def)
qed

theorem http_get_assertion_witness:
  "fst (http_get net_down ''https://soundcloud.com/a'' 1 0.5 []) \<noteq> Inl AssertionError \<and>
   http_get net_down ''https://soundcloud.com/a'' 0 0.5 [] = (Inl AssertionError, [])"
  using http_get_assertion [where m = 1 and b = "0.5" and net = net_down and tr = "[]" and url = "''https://soundcloud.com/a''"]
    http_get_assertion [where m = 0 and b = "0.5" and net = net_down and tr = "[]" and url = "''https://soundcloud.com/a''"]
  by simp



section \<open>Properties of the input configuration\<close>

lemma py_strip_empty_iff: "py_strip s = [] \<longleftrightarrow> blank s"
proof
  assume "blank s"
  then have "\<forall>c\<in>set s. py_isspace c" by (simp add: blank_def list_all_iff)
  then have "dropWhile py_isspace s = []" by (metis dropWhile_eq_Nil_conv)
  then show "py_strip s = []"
    by (simp only: py_strip_def py_lstrip_def py_rstrip_def rev.simps dropWhile.simps)
next
  assume e: "py_strip s = []"
  show "blank s"
  proof (rule ccontr)
    assume "\<not> blank s"
    then have "\<not> (\<forall>c\<in>set s. py_isspace c)" by (simp add: blank_def list_all_iff)
    then have ne: "dropWhile py_isspace s \<noteq> []" by (metis dropWhile_eq_Nil_conv)
    then have "\<not> py_isspace (hd (dropWhile py_isspace s))" by (rule hd_dropWhile)
    moreover have "hd (dropWhile py_isspace s) \<in> set (rev (dropWhile py_isspace s))"
      using ne by simp
    ultimately have "dropWhile py_isspace (rev (dropWhile py_isspace s)) \<noteq> []"
      by (metis dropWhile_eq_Nil_conv)
    then have "rev (dropWhile py_isspace (rev (dropWhile py_isspace s))) \<noteq> []"
      by (simp only: rev_is_Nil_conv not_False_eq_True)
    then show False using e by (simp only: py_strip_def py_lstrip_def py_rstrip_def)
  qed
qed

lemma keep_entry:
  "(case p of JStr s \<Rightarrow> if py_strip s \<noteq> [] then Some s else None | _ \<Rightarrow> None) =
     (if nonblank_str p then Some (the_str p) else None)"
  by (cases p) (simp_all add: py_strip_empty_iff)

lemma str_entries_kept: "str_entries xs = kept_entries xs"
  unfolding str_entries_def kept_entries_def keep_entry
  by (induction xs) (simp_all add: map_filter_simps)

lemma kept_entries_unchanged:
  "\<forall>v\<in>set xs. nonblank_str v \<Longrightarrow> map JStr (kept_entries xs) = xs"
proof (induction xs)
  case Nil
  show ?case by (simp add: kept_entries_def)
next
  case (Cons v xs)
  then show ?case by (cases v) (simp_all add: kept_entries_def)
qed

lemma get_or_empty_list: "dict_get raw k = Some (JList xs) \<Longrightarrow> get_or_empty raw k = JList xs"
  by (cases xs) (simp_all add: get_or_empty_def)

text \<open>
  C9. For every input configuration whose \<open>profiles\<close> and \<open>keywords\<close> are lists and
  whose \<open>maxItemsPerKeyword\<close> is a positive integer or missing,
  \<open>_normalize_input_config\<close> returns the configuration with the two lists reduced to
  their entries that are strings and not empty or whitespace-only (every other entry
  is dropped, the kept ones are unchanged and in order; a list of such strings only
  comes back as it is), and with \<open>maxItemsPerKeyword\<close> as given, or 20 when missing.
\<close>

theorem normalize_input_config_valid:
  assumes "dict_get raw ''profiles'' = Some (JList ps)"
    and "dict_get raw ''keywords'' = Some (JList ks)"
    and "dict_get raw ''maxItemsPerKeyword'' = None \<and> n = 20 \<or>
         dict_get raw ''maxItemsPerKeyword'' = Some (JInt n) \<and> 0 < n"
  shows "normalize_input_config raw =
      Inr \<lparr>cfg_profiles = kept_entries ps, cfg_keywords = kept_entries ks,
           cfg_maxItemsPerKeyword = n\<rparr> \<and>
    ((\<forall>v\<in>set ps. nonblank_str v) \<longrightarrow> map JStr (kept_entries ps) = ps) \<and>
    ((\<forall>v\<in>set ks. nonblank_str v) \<longrightarrow> map JStr (kept_entries ks) = ks)"
proof -
  have "normalize_max_items raw = Inr n"
    using assms(3) by (auto simp: normalize_max_items_def)
  then show ?thesis
    using get_or_empty_list [OF assms(1)] get_or_empty_list [OF assms(2)]
    by (simp add: normalize_input_config_def str_entries_kept kept_entries_unchanged)
qed

lemma get_or_empty_truthy_non_list:
  "truthy_non_list (dict_get raw k) \<Longrightarrow> \<not> is_list (get_or_empty raw k)"
  by (auto simp: truthy_non_list_def get_or_empty_def split: option.splits)

lemma bad_max_ValueError: "bad_max v \<Longrightarrow>
  (\<exists>msg. (case py_int v of
           Inl TypeError \<Rightarrow> Inl (ValueError ''`maxItemsPerKeyword` must be an integer.'')
         | Inl (ValueError m) \<Rightarrow> Inl (ValueError ''`maxItemsPerKeyword` must be an integer.'')
         | Inl e \<Rightarrow> Inl e
         | Inr n \<Rightarrow>
             if n \<le> 0 then Inl (ValueError ''`maxItemsPerKeyword` must be > 0.'')
             else Inr n) = (Inl (ValueError msg) :: error + int))"
proof (cases v)
  case (JFloat f)
  assume "bad_max v"
  then show ?thesis using JFloat by (cases f) simp_all
next
  case (JStr s)
  assume "bad_max v"
  then show ?thesis using JStr by (cases "int_of_str s") simp_all
qed simp_all

lemma normalize_max_items_bad:
  "dict_get raw ''maxItemsPerKeyword'' = Some v \<Longrightarrow> bad_max v \<Longrightarrow>
   \<exists>msg. normalize_max_items raw = Inl (ValueError msg)"
  using bad_max_ValueError [of v] by (simp add: normalize_max_items_def)

lemma normalize_input_config_malformed:
  assumes "malformed raw"
  shows "\<exists>msg. normalize_input_config raw = Inl (ValueError msg)"
proof (cases "is_list (get_or_empty raw ''profiles'')")
  case False
  then show ?thesis
    by (cases "get_or_empty raw ''profiles''") (simp_all add: normalize_input_config_def)
next
  case True
  then obtain ps where ps: "get_or_empty raw ''profiles'' = JList ps"
    by (cases "get_or_empty raw ''profiles''") simp_all
  show ?thesis
  proof (cases "is_list (get_or_empty raw ''keywords'')")
    case False
    then show ?thesis
      by (cases "get_or_empty raw ''keywords''") (simp_all add: normalize_input_config_def ps)
  next
    case kl: True
    then obtain ks where ks: "get_or_empty raw ''keywords'' = JList ks"
      by (cases "get_or_empty raw ''keywords''") simp_all
    from assms True kl obtain v where
      "dict_get raw ''maxItemsPerKeyword'' = Some v" and "bad_max v"
      using get_or_empty_truthy_non_list [of raw "''profiles''"]
        get_or_empty_truthy_non_list [of raw "''keywords''"]
      by (auto simp: malformed_def split: option.splits)
    then obtain msg where "normalize_max_items raw = Inl (ValueError msg)"
      using normalize_max_items_bad by blast
    then show ?thesis by (simp add: normalize_input_config_def ps ks)
  qed
qed

text \<open>
  C1 (amended). For every input configuration in which \<open>profiles\<close> or \<open>keywords\<close> is
  a truthy value that is not a list, or \<open>maxItemsPerKeyword\<close> is a value that \<open>int()\<close>
  rejects with \<open>TypeError\<close> or \<open>ValueError\<close> (null, a list, an object, NaN, a string
  that \<open>int()\<close> does not read as an integer literal) or converts to an integer that is
  not positive, \<open>_normalize_input_config\<close> raises \<open>ValueError\<close>, and \<open>main\<close> exits
  with status 1 without a single request or sleep.
\<close>

theorem malformed_input_rejected:
  assumes "malformed raw"
  shows "(\<exists>msg. normalize_input_config raw = Inl (ValueError msg)) \<and>
    main h net st (Loaded (JObj raw)) = \<lparr>exit = SystemExit_1, events = [], exported = None\<rparr>"
proof -
  from normalize_input_config_malformed [OF assms] obtain msg where
    "normalize_input_config raw = Inl (ValueError msg)" by blast
  then show ?thesis by (simp add: main_def load_input_config_def)
qed



theorem normalize_input_config_valid_witness:
  "normalize_input_config input_valid =
     Inr \<lparr>cfg_profiles = [''https://soundcloud.com/a'', '' user2 ''], cfg_keywords = [''lofi''],
          cfg_maxItemsPerKeyword = 20\<rparr> \<and>
   map JStr (kept_entries [JStr ''lofi'']) = [JStr ''lofi'']"
proof -
  have sp: "\<not> py_isspace CHR ''h''" "\<not> py_isspace CHR ''l''" "py_isspace CHR '' ''"
    "\<not> py_isspace CHR ''u''"
    by (simp_all add: py_isspace_def)
  show ?thesis
    using normalize_input_config_valid [where raw = input_valid and n = 20
        and ps = "[JStr ''https://soundcloud.com/a'', JInt 7, JStr ''  '', JStr '' user2 '']"
        and ks = "[JStr ''lofi'']"]
    by (simp add: input_valid_def dict_get_def kept_entries_def blank_def sp)
qed

theorem malformed_input_rejected_witness:
  "malformed input_zero_max \<and>
   normalize_input_config input_zero_max =
     Inl (ValueError ''`maxItemsPerKeyword` must be > 0.'') \<and>
   main example_helpers net_search no_settings (Loaded (JObj input_zero_max)) =
     \<lparr>exit = SystemExit_1, events = [], exported = None\<rparr> \<and>
   malformed input_separator_max \<and>
   normalize_input_config input_separator_max =
     Inl (ValueError ''`maxItemsPerKeyword` must be an integer.'') \<and>
   main example_helpers net_search no_settings (Loaded (JObj input_separator_max)) =
     \<lparr>exit = SystemExit_1, events = [], exported = None\<rparr>"
proof -
  have m: "malformed input_zero_max"
    by (simp add: malformed_def input_zero_max_def dict_get_def truthy_non_list_def)
  have e: "normalize_input_config input_zero_max =
      Inl (ValueError ''`maxItemsPerKeyword` must be > 0.'')"
    by (simp add: normalize_input_config_def normalize_max_items_def get_or_empty_def
        input_zero_max_def dict_get_def)
  have no_int: "int_of_str [CHR 0x1C, CHR ''7''] = None"
    by (simp add: int_of_str_def int_strip_def int_isspace_def int_max_str_digits_def
        is_digit_def)
  have m': "malformed input_separator_max"
    by (simp add: malformed_def input_separator_max_def dict_get_def truthy_non_list_def
        no_int)
  have e': "normalize_input_config input_separator_max =
      Inl (ValueError ''`maxItemsPerKeyword` must be an integer.'')"
    by (simp add: normalize_input_config_def normalize_max_items_def get_or_empty_def
        input_separator_max_def dict_get_def no_int)
  show ?thesis
    using malformed_input_rejected [OF m, of example_helpers net_search no_settings]
      malformed_input_rejected [OF m', of example_helpers net_search no_settings] m e m' e'
    by simp
qed

text \<open>
  The claim as stated rejects every \<open>maxItemsPerKeyword\<close> that is not an integer.
  The code converts with \<open>int()\<close>: the string \<open>"7"\<close> is accepted as 7 and the number
  2.5 as 2.
\<close>

theorem non_integer_max_accepted_counterexample:
  "normalize_input_config input_string_max =
     Inr \<lparr>cfg_profiles = [], cfg_keywords = [''lofi''], cfg_maxItemsPerKeyword = 7\<rparr> \<and>
   normalize_input_config input_float_max =
     Inr \<lparr>cfg_profiles = [], cfg_keywords = [''lofi''], cfg_maxItemsPerKeyword = 2\<rparr>"
proof -
  have sp: "\<not> py_isspace CHR ''l''" "\<not> py_isspace CHR ''7''" "\<not> py_isspace CHR ''i''"
    by (simp_all add: py_isspace_def)
  have seven: "int_of_str ''7'' = Some 7"
    by (simp add: int_of_str_def int_strip_def int_isspace_def int_max_str_digits_def is_digit_def
        digit_val_def)
  show ?thesis
    by (simp add: normalize_input_config_def normalize_max_items_def get_or_empty_def
        input_string_max_def input_float_max_def dict_get_def seven trunc_def
        str_entries_def map_filter_simps py_strip_empty_iff blank_def sp)
qed

section \<open>Properties of the scraper\<close>

text \<open>
  C6. For every keyword that is empty or whitespace-only, \<open>search_artists\<close> raises
  \<open>ValueError\<close> and the trace is as before the call: no request was issued.
\<close>

theorem search_artists_blank_keyword:
  "blank keyword \<Longrightarrow>
   search_artists h cfg net keyword max_items tr =
     (Inl (ValueError ''Keyword cannot be empty.''), tr)"
  by (simp add: search_artists_def py_strip_empty_iff)

theorem search_artists_blank_keyword_witness:
  "search_artists example_helpers (scraper_of_settings no_settings) net_search '''' 10 [] =
     (Inl (ValueError ''Keyword cannot be empty.''), []) \<and>
   search_artists example_helpers (scraper_of_settings no_settings) net_search ''   '' 10 [] =
     (Inl (ValueError ''Keyword cannot be empty.''), [])"
  using search_artists_blank_keyword [where keyword = "''''" and h = example_helpers
      and cfg = "scraper_of_settings no_settings" and net = net_search and max_items = 10
      and tr = "[]"]
    search_artists_blank_keyword [where keyword = "''   ''" and h = example_helpers
      and cfg = "scraper_of_settings no_settings" and net = net_search and max_items = 10
      and tr = "[]"]
  by (simp add: blank_def py_isspace_def)

lemma py_slice_to_length: "0 \<le> m \<Longrightarrow> length (py_slice_to xs m) \<le> nat m"
  by (simp add: py_slice_to_def)

lemma collect_users_full:
  "max_items \<le> int (length artists) \<Longrightarrow> collect_users h max_items users artists = artists"
  by (cases users) simp_all

text \<open>
  C7. For every keyword and every \<open>max_items\<close>, when \<open>search_artists\<close> returns
  normally it returns a list of at most \<open>max_items\<close> records; the records of the
  hydration data and of the profile-link fallback count alike.  The bound is
  \<open>max_items\<close> as a count, \<open>nat max_items\<close>: it is \<open>max_items\<close> itself for the
  positive values the input loader admits and for 0, and for a negative \<open>max_items\<close>
  the result is empty.
\<close>

theorem search_artists_at_most_max_items:
  assumes "fst (search_artists h cfg net keyword max_items tr) = Inr artists"
  shows "length artists \<le> nat max_items"
proof (cases "0 \<le> max_items")
  case True
  have "\<exists>xs. artists = py_slice_to xs max_items"
    using assms
    by (auto simp: search_artists_def Let_def
        split: if_splits prod.splits sum.splits)
  then show ?thesis using py_slice_to_length [OF True] by auto
next
  case False
  then have neg: "max_items \<le> int (length ([] :: artist list))" by simp
  have empty: "\<And>users. collect_users h max_items users [] = []"
    using collect_users_full [OF neg] .
  have "artists = py_slice_to [] max_items"
    using assms False
    by (auto simp: search_artists_def Let_def empty
        split: if_splits prod.splits sum.splits)
  then show ?thesis by (simp add: py_slice_to_def)
qed


lemma example_search_page:
  "http_get net_search ''https://soundcloud.com/search/people?q=lofi'' 3 b [] =
     (Inr \<lparr>status_code = 200, resp_text = ''H[1,2,3]''\<rparr>,
      [Request ''https://soundcloud.com/search/people?q=lofi''])"
  by (simp add: http_get_def http_get_loop.simps try_request_def requests_get_def
      raise_for_status_def net_search_def count_requests_def)

lemma example_profile_page:
  "http_get net_search ''https://soundcloud.com/a'' 3 b
     [Request ''https://soundcloud.com/search/people?q=lofi''] =
     (Inr \<lparr>status_code = 200, resp_text = ''<html>''\<rparr>,
      [Request ''https://soundcloud.com/search/people?q=lofi'',
       Request ''https://soundcloud.com/a''])"
  by (simp add: http_get_def http_get_loop.simps try_request_def requests_get_def
      raise_for_status_def net_search_def count_requests_def)

lemma example_scraper:
  "scraper_of_settings no_settings =
     \<lparr>base_url = ''https://soundcloud.com'', timeout = 15, max_retries = 3,
      backoff_factor = 0.5, user_agent = Some default_user_agent, proxy = None\<rparr>"
  by (simp add: scraper_of_settings_def no_settings_def SoundCloudArtistScraper_def
      rstrip_char_def)

lemma example_search_4:
  "search_artists example_helpers (scraper_of_settings no_settings) net_search ''lofi'' 4 [] =
     (Inr [\<lparr>artist_id = Some (IntId 1), permalink_url = None, username = None\<rparr>,
           \<lparr>artist_id = Some (IntId 2), permalink_url = None, username = None\<rparr>,
           \<lparr>artist_id = Some (IntId 3), permalink_url = None, username = None\<rparr>,
           \<lparr>artist_id = None, permalink_url = Some ''https://soundcloud.com/a'',
             username = None\<rparr>],
      [Request ''https://soundcloud.com/search/people?q=lofi'',
       Request ''https://soundcloud.com/a''])"
proof -
  have sp: "\<not> py_isspace CHR ''l''" "\<not> py_isspace CHR ''i''" "\<not> py_isspace CHR ''/''"
    "\<not> py_isspace CHR ''a''"
    by (simp_all add: py_isspace_def)
  have strip: "py_strip ''lofi'' = ''lofi''" "py_strip ''/a'' = ''/a''"
    by (simp_all add: py_strip_def py_lstrip_def py_rstrip_def sp)
  show ?thesis
    by (simp add: search_artists_def example_scraper strip example_helpers_def
        example_search_page example_profile_page extract_hydration_blocks_def
        fetch_artist_profile_def normalize_profile_url_def lstrip_char_def py_slice_to_def
        Let_def)
qed

theorem search_artists_at_most_max_items_witness:
  "fst (search_artists example_helpers (scraper_of_settings no_settings) net_search ''lofi'' 4 []) =
     Inr [\<lparr>artist_id = Some (IntId 1), permalink_url = None, username = None\<rparr>,
          \<lparr>artist_id = Some (IntId 2), permalink_url = None, username = None\<rparr>,
          \<lparr>artist_id = Some (IntId 3), permalink_url = None, username = None\<rparr>,
          \<lparr>artist_id = None, permalink_url = Some ''https://soundcloud.com/a'',
            username = None\<rparr>] \<and>
   length [\<lparr>artist_id = Some (IntId 1), permalink_url = None, username = None\<rparr>,
          \<lparr>artist_id = Some (IntId 2), permalink_url = None, username = None\<rparr>,
          \<lparr>artist_id = Some (IntId 3), permalink_url = None, username = None\<rparr>,
          \<lparr>artist_id = None, permalink_url = Some ''https://soundcloud.com/a'',
            username = None\<rparr>] \<le> nat 4"
proof -
  have run: "fst (search_artists example_helpers (scraper_of_settings no_settings) net_search
      ''lofi'' 4 []) =
     Inr [\<lparr>artist_id = Some (IntId 1), permalink_url = None, username = None\<rparr>,
          \<lparr>artist_id = Some (IntId 2), permalink_url = None, username = None\<rparr>,
          \<lparr>artist_id = Some (IntId 3), permalink_url = None, username = None\<rparr>,
          \<lparr>artist_id = None, permalink_url = Some ''https://soundcloud.com/a'',
            username = None\<rparr>]"
    by (simp add: example_search_4)
  from search_artists_at_most_max_items [OF run] run show ?thesis
    by (intro conjI)
qed

text \<open>
  C8. For every page text in which neither the primary nor the fallback pattern
  matches, and for every page text whose matched text is malformed JSON,
  \<open>_extract_hydration_blocks\<close> returns the empty sequence; it raises on no input.
\<close>

theorem extract_hydration_blocks_empty:
  "(search_primary h html = None \<and> search_loose h html = None \<longrightarrow>
      extract_hydration_blocks h html = Inr []) \<and>
   ((search_primary h html = Some m \<or>
     search_primary h html = None \<and> search_loose h html = Some m) \<and>
    json_loads h m = Inl e \<longrightarrow>
      extract_hydration_blocks h html = Inr []) \<and>
   (\<exists>blocks. extract_hydration_blocks h html = Inr blocks)"
  by (auto simp: extract_hydration_blocks_def Let_def split: option.splits sum.splits json.splits)

theorem extract_hydration_blocks_empty_witness:
  "extract_hydration_blocks example_helpers ''<html>'' = Inr [] \<and>
   extract_hydration_blocks example_helpers ''H[oops'' = Inr []"
  using extract_hydration_blocks_empty [where h = example_helpers and html = "''<html>''"]
    extract_hydration_blocks_empty [where h = example_helpers and html = "''H[oops''"
      and m = "''[oops''" and e = "ValueError ''Expecting value''"]
  by (simp add: example_helpers_def)

end
